theory Spec2Isabelle
  imports Main "HOL-Library.Sublist"
begin

section \<open>MultiComboBox: data model\<close>

text \<open>
  A value of the generic type \<^verbatim>\<open>T\<close> as JavaScript's strict equality sees it. \<open>Val a\<close>
  is any value but NaN: a primitive value compares by value and an object by reference, so
  \<open>a\<close> stands for either the value or the reference (and for both zeros, which
  \<^verbatim>\<open>===\<close> does not tell apart). \<open>NaN\<close> is strictly equal to nothing, itself
  included.
\<close>

datatype 'v jsvalue = NaN | Val 'v

fun strictEquals :: "'v jsvalue \<Rightarrow> 'v jsvalue \<Rightarrow> bool" where
  "strictEquals (Val a) (Val b) = (a = b)"
| "strictEquals _ _ = False"

text \<open>
  An item of the combo box (\<^verbatim>\<open>Item<T>\<close>, for selected items intersected with
  \<^verbatim>\<open>{ deletable?: boolean }\<close>).
\<close>

record 'v Item =
  label :: string
  "value" :: "'v jsvalue"
  deletable :: "bool option"

text \<open>
  The props of \<^verbatim>\<open>MultiComboBox\<close> that its logic reads, after the defaults of the
  parameter list (\<^verbatim>\<open>disabled = false\<close>, \<^verbatim>\<open>creatable = false\<close>). The prop
  \<^verbatim>\<open>inputValue\<close> is bound to \<open>controlledInputValue\<close>, \<open>None\<close> being
  \<^verbatim>\<open>undefined\<close>. An optional callback is the flag whether the owner supplied it; calling
  it is an effect in the handler's effect list. \<open>selectedItemsRef\<close> is the identity of the
  array object passed as \<^verbatim>\<open>selectedItems\<close>: the dependency list of a layout effect is
  compared by \<^verbatim>\<open>Object.is\<close>, which for an array is its identity, not its contents.
\<close>

record 'v Props =
  items :: "'v Item list"
  selectedItems :: "'v Item list"
  selectedItemsRef :: nat
  disabled :: bool
  creatable :: bool
  controlledInputValue :: "string option"
  onChange :: bool
  onChangeInput :: bool
  onAdd :: bool
  onDelete :: bool
  onSelect :: bool
  onChangeSelected :: bool
  onFocus :: bool
  onBlur :: bool

text \<open>
  The component's own state: the three \<^verbatim>\<open>useState\<close> cells, and the number of
  \<^verbatim>\<open>setTimeout(() => focus(), 0)\<close> timers that were set and have not run yet.
\<close>

record State =
  isFocused :: bool
  uncontrolledInputValue :: string
  isComposing :: bool
  pendingFocus :: nat

definition initialState :: State where
  "initialState =
     \<lparr>isFocused = False, uncontrolledInputValue = [], isComposing = False, pendingFocus = 0\<rparr>"

section \<open>MultiComboBox: values derived in a render pass\<close>

definition isInputControlled :: "'v Props \<Rightarrow> bool" where
  "isInputControlled props = (controlledInputValue props \<noteq> None)"

definition inputValue :: "'v Props \<Rightarrow> State \<Rightarrow> string" where
  "inputValue props st =
     (case controlledInputValue props of
        Some v \<Rightarrow> v
      | None \<Rightarrow> uncontrolledInputValue st)"

definition selectedLabels :: "'v Props \<Rightarrow> string list" where
  "selectedLabels props = map label (selectedItems props)"

text \<open>
  \<^verbatim>\<open>items.filter(...)\<close> of lines 146 to 150. The helper
  \<^verbatim>\<open>convertMatchableString\<close> lives in another module (\<^verbatim>\<open>./comboBoxHelper\<close>) and
  is the parameter \<open>cms\<close>. \<^verbatim>\<open>String.prototype.includes\<close> is
  \<^const>\<open>sublist\<close> (a contiguous occurrence), \<^verbatim>\<open>!inputValue\<close> holds of the empty
  string only.
\<close>

definition filteredItems :: "(string \<Rightarrow> string) \<Rightarrow> 'v Props \<Rightarrow> State \<Rightarrow> 'v Item list" where
  "filteredItems cms props st =
     filter
       (\<lambda>item.
          if label item \<in> set (selectedLabels props) then False
          else if inputValue props st = [] then True
          else sublist (cms (inputValue props st)) (cms (label item)))
       (items props)"

definition isDuplicate :: "'v Props \<Rightarrow> State \<Rightarrow> bool" where
  "isDuplicate props st = list_ex (\<lambda>item. label item = inputValue props st) (items props)"

definition hasSelectableExactMatch :: "(string \<Rightarrow> string) \<Rightarrow> 'v Props \<Rightarrow> State \<Rightarrow> bool" where
  "hasSelectableExactMatch cms props st =
     list_ex (\<lambda>item. label item = inputValue props st) (filteredItems cms props st)"

text \<open>The data-valued options handed to \<^verbatim>\<open>useListBox\<close> (lines 160 to 176).\<close>

record 'v ListBoxOptions =
  lb_items :: "'v Item list"
  lb_inputValue :: string
  lb_isExpanded :: bool
  lb_isAddable :: bool
  lb_isDuplicate :: bool
  lb_hasNoMatch :: bool

definition useListBoxOptions :: "(string \<Rightarrow> string) \<Rightarrow> 'v Props \<Rightarrow> State \<Rightarrow> 'v ListBoxOptions" where
  "useListBoxOptions cms props st =
     \<lparr>lb_items = filteredItems cms props st,
      lb_inputValue = inputValue props st,
      lb_isExpanded = isFocused st,
      lb_isAddable = (creatable props \<and> inputValue props st \<noteq> [] \<and> \<not> isDuplicate props st),
      lb_isDuplicate =
        (creatable props \<and> inputValue props st \<noteq> [] \<and> isDuplicate props st
         \<and> \<not> hasSelectableExactMatch cms props st),
      lb_hasNoMatch =
        ((\<not> creatable props \<and> length (filteredItems cms props st) = 0)
         \<or> (creatable props \<and> length (filteredItems cms props st) = 0
             \<and> inputValue props st = []))\<rparr>"

section \<open>MultiComboBox: event handlers\<close>

text \<open>
  A handler is a closure over the props and state of the render pass that created it. It
  reads them and performs, in order, state updates (which React applies after the handler)
  and calls to the owner's callbacks and to the list box. The model returns that sequence.
\<close>

datatype 'v effect =
    SetIsFocused bool
  | SetUncontrolledInputValue string
  | SetIsComposing bool
  | SetTimeoutFocus
  | OnChange string
  | OnChangeInput string
  | OnAdd string
  | OnDelete "'v Item"
  | OnSelect "'v Item"
  | OnChangeSelected "'v Item list"
  | OnFocus
  | OnBlur
  | ResetActiveOptionIndex
  | HandleInputKeyDown string
  | StopPropagation
  | InputElementFocus

fun applyEffect :: "State \<Rightarrow> 'v effect \<Rightarrow> State" where
  "applyEffect st (SetIsFocused b) = st\<lparr>isFocused := b\<rparr>"
| "applyEffect st (SetUncontrolledInputValue s) = st\<lparr>uncontrolledInputValue := s\<rparr>"
| "applyEffect st (SetIsComposing b) = st\<lparr>isComposing := b\<rparr>"
| "applyEffect st SetTimeoutFocus = st\<lparr>pendingFocus := Suc (pendingFocus st)\<rparr>"
| "applyEffect st _ = st"

definition commit :: "State \<Rightarrow> 'v effect list \<Rightarrow> State" where
  "commit st effs = foldl applyEffect st effs"

text \<open>The \<^verbatim>\<open>onSelect\<close> option handed to \<^verbatim>\<open>useListBox\<close> (lines 164 to 167).\<close>

definition listBox_onSelect :: "'v Props \<Rightarrow> 'v Item \<Rightarrow> 'v effect list" where
  "listBox_onSelect props selected =
     (if onSelect props then [OnSelect selected] else [])
     @ (if onChangeSelected props then [OnChangeSelected (selectedItems props @ [selected])]
        else [])"

text \<open>\<^verbatim>\<open>focus\<close> and \<^verbatim>\<open>blur\<close> (lines 178 to 187).\<close>

definition focus :: "'v Props \<Rightarrow> 'v effect list" where
  "focus props =
     (if onFocus props then [OnFocus] else []) @ [SetIsFocused True, ResetActiveOptionIndex]"

definition blur :: "'v Props \<Rightarrow> State \<Rightarrow> 'v effect list" where
  "blur props st =
     (if \<not> isFocused st then []
      else (if onBlur props then [OnBlur] else []) @ [SetIsFocused False])"

text \<open>
  The first layout effect (lines 202 to 210). The input element is rendered in every
  pass, so \<^verbatim>\<open>inputRef.current\<close> is set whenever a layout effect runs.
\<close>

definition inputLayoutEffect :: "'v Props \<Rightarrow> State \<Rightarrow> 'v effect list" where
  "inputLayoutEffect props st =
     (if \<not> isInputControlled props then [SetUncontrolledInputValue []] else [])
     @ (if isFocused st then [InputElementFocus] else [])"

text \<open>
  The handlers of the container (lines 227 to 244). \<open>onDeleteButton\<close> is the result of
  \<^verbatim>\<open>hasParentElementByClassName(e.target, classNames.deleteButton)\<close>.
\<close>

definition Container_onClick :: "'v Props \<Rightarrow> State \<Rightarrow> bool \<Rightarrow> 'v effect list" where
  "Container_onClick props st onDeleteButton =
     (if \<not> onDeleteButton \<and> \<not> disabled props \<and> \<not> isFocused st then [SetTimeoutFocus] else [])"

definition Container_onKeyDown :: "'v Props \<Rightarrow> State \<Rightarrow> string \<Rightarrow> 'v effect list" where
  "Container_onKeyDown props st key =
     (if key = ''Escape'' \<or> key = ''Esc'' then StopPropagation # blur props st else [])"

text \<open>
  The \<^verbatim>\<open>onDelete\<close> handed to a selected item's chip (lines 259 to 269). The labels are
  strings, on which \<^verbatim>\<open>!==\<close> is inequality; on the values it is the negation of
  \<^const>\<open>strictEquals\<close>.
\<close>

definition MultiSelectedItem_onDelete :: "'v Props \<Rightarrow> 'v Item \<Rightarrow> 'v effect list" where
  "MultiSelectedItem_onDelete props selectedItem =
     (if onDelete props then [OnDelete selectedItem] else [])
     @ (if onChangeSelected props then
          [OnChangeSelected
             (filter
                (\<lambda>selected. label selected \<noteq> label selectedItem
                   \<or> \<not> strictEquals (value selected) (value selectedItem))
                (selectedItems props))]
        else [])"

text \<open>The handlers of the input element (lines 283 to 306).\<close>

definition Input_onChange :: "'v Props \<Rightarrow> string \<Rightarrow> 'v effect list" where
  "Input_onChange props v =
     (if onChange props then [OnChange v] else [])
     @ (if onChangeInput props then [OnChangeInput v] else [])
     @ (if \<not> isInputControlled props then [SetUncontrolledInputValue v] else [])"

definition Input_onFocus :: "'v Props \<Rightarrow> State \<Rightarrow> 'v effect list" where
  "Input_onFocus props st = (if \<not> isFocused st then focus props else [])"

definition Input_onKeyDown :: "'v Props \<Rightarrow> State \<Rightarrow> string \<Rightarrow> 'v effect list" where
  "Input_onKeyDown props st key =
     (if isComposing st then []
      else if key = ''Tab'' then blur props st
      else [HandleInputKeyDown key])"

section \<open>MultiComboBox: the interaction state machine\<close>

text \<open>
  The events the component reacts to. A keydown on the input element carries, besides the
  key, whether \<^verbatim>\<open>handleInputKeyDown\<close> of the list box (module \<^verbatim>\<open>./useListBox\<close>)
  stops the propagation of this event when it is called. \<open>SelectedItemDelete i\<close> is the chip
  of the \<open>i\<close>-th selected item calling its \<^verbatim>\<open>onDelete\<close>; \<open>ListBoxSelect\<close> and
  \<open>ListBoxAdd\<close> are the list box calling \<^verbatim>\<open>onSelect\<close> and \<^verbatim>\<open>onAdd\<close>;
  \<open>Timeout\<close> is a pending zero-delay timer running \<^verbatim>\<open>focus()\<close>.
\<close>

datatype 'v event =
    ContainerClick bool
  | ContainerKeyDown string
  | InputKeyDown string bool
  | InputChange string
  | InputFocus
  | CompositionStart
  | CompositionEnd
  | OuterClick
  | Timeout
  | SelectedItemDelete nat
  | ListBoxSelect "'v Item"
  | ListBoxAdd string

text \<open>
  A keydown on the input runs the input's handler and then bubbles to the container's,
  unless the list-box handler was called and stopped the propagation. Both handlers are
  closures of the same render pass.
\<close>

definition inputKeyDownDispatch :: "'v Props \<Rightarrow> State \<Rightarrow> string \<Rightarrow> bool \<Rightarrow> 'v effect list" where
  "inputKeyDownDispatch props st key stops =
     (let effs = Input_onKeyDown props st key in
      if HandleInputKeyDown key \<in> set effs \<and> stops then effs
      else effs @ Container_onKeyDown props st key)"

fun handle :: "'v Props \<Rightarrow> State \<Rightarrow> 'v event \<Rightarrow> 'v effect list" where
  "handle props st (ContainerClick onDeleteButton) = Container_onClick props st onDeleteButton"
| "handle props st (ContainerKeyDown key) = Container_onKeyDown props st key"
| "handle props st (InputKeyDown key stops) = inputKeyDownDispatch props st key stops"
| "handle props st (InputChange v) = Input_onChange props v"
| "handle props st InputFocus = Input_onFocus props st"
| "handle props st CompositionStart = [SetIsComposing True]"
| "handle props st CompositionEnd = [SetIsComposing False]"
| "handle props st OuterClick = blur props st"
| "handle props st Timeout = (if pendingFocus st = 0 then [] else focus props)"
| "handle props st (SelectedItemDelete i) =
     (if i < length (selectedItems props)
      then MultiSelectedItem_onDelete props (selectedItems props ! i) else [])"
| "handle props st (ListBoxSelect selected) = listBox_onSelect props selected"
| "handle props st (ListBoxAdd l) = (if onAdd props then [OnAdd l] else [])"

text \<open>
  One event under unchanged props: the handler's updates are committed, a timer that ran
  is no longer pending, and the layout effect runs when its dependency \<^verbatim>\<open>isFocused\<close>
  changed. The result is the next state and everything that was done.
\<close>

definition step :: "'v Props \<Rightarrow> State \<Rightarrow> 'v event \<Rightarrow> State \<times> 'v effect list" where
  "step props st ev =
     (let effs = handle props st ev;
          st0 = (if ev = Timeout then st\<lparr>pendingFocus := pendingFocus st - 1\<rparr> else st);
          st1 = commit st0 effs;
          effs' = (if isFocused st1 \<noteq> isFocused st then inputLayoutEffect props st1 else [])
      in (commit st1 effs', effs @ effs'))"

fun run :: "'v Props \<Rightarrow> State \<Rightarrow> 'v event list \<Rightarrow> State \<times> 'v effect list" where
  "run props st [] = (st, [])"
| "run props st (ev # evs) =
     (let (st1, effs1) = step props st ev;
          (st2, effs2) = run props st1 evs
      in (st2, effs1 @ effs2))"

text \<open>
  The owner renders the component with new props: the layout effect runs when one of its
  dependencies \<^verbatim>\<open>[isFocused, isInputControlled, selectedItems]\<close> differs from the
  previous pass.
\<close>

definition receiveProps :: "'v Props \<Rightarrow> 'v Props \<Rightarrow> State \<Rightarrow> State \<times> 'v effect list" where
  "receiveProps prev props st =
     (let effs = (if isInputControlled props \<noteq> isInputControlled prev
                     \<or> selectedItemsRef props \<noteq> selectedItemsRef prev
                  then inputLayoutEffect props st else [])
      in (commit st effs, effs))"

definition mount :: "'v Props \<Rightarrow> State \<times> 'v effect list" where
  "mount props =
     (let effs = inputLayoutEffect props initialState in (commit initialState effs, effs))"

text \<open>The focus flag as a number: what a call of \<^verbatim>\<open>blur\<close> can still spend.\<close>

definition focusedBit :: "State \<Rightarrow> nat" where
  "focusedBit st = (if isFocused st then 1 else 0)"

section \<open>FormGroup: data model\<close>

text \<open>
  What a component returns: an element with its name, its React key, its props and its
  children; a string; an array of nodes; or a value that renders nothing
  (\<^verbatim>\<open>undefined\<close>, \<^verbatim>\<open>null\<close>, \<^verbatim>\<open>false\<close>). Numbers and \<^verbatim>\<open>true\<close>, which a
  \<^verbatim>\<open>ReactNode\<close> may also be, are left out. A prop that is \<^verbatim>\<open>undefined\<close> is absent
  from the map of props.
\<close>

datatype innerMarginType = XXS | XS | S

record Theme =
  TEXT_DISABLED :: string
  DANGER :: string

datatype attr = Str string | ThemeVal Theme | MarginVal innerMarginType

datatype jsx =
    Element (tag: string) (reactKey: "nat option") (attrs: "string \<rightharpoonup> attr") (children: "jsx list")
  | Text string
  | Fragment "jsx list"
  | Nothing

datatype errorMessagesType = Single string | Many "string list"

text \<open>
  The props of \<^verbatim>\<open>FormGroup\<close>, after the defaults of its parameter list
  (\<^verbatim>\<open>innerMargin = 'XS'\<close>, \<^verbatim>\<open>statusLabelProps = []\<close>, \<^verbatim>\<open>className = ''\<close>);
  \<^verbatim>\<open>disabled\<close> is only ever tested for truth, so \<^verbatim>\<open>undefined\<close> is \<open>False\<close>.
  \<open>fg_rest\<close> is the rest object \<^verbatim>\<open>...props\<close>, which holds \<^verbatim>\<open>role\<close>.
\<close>

record FormGroupProps =
  fg_title :: string
  fg_titleType :: "string option"
  fg_htmlFor :: "string option"
  fg_labelId :: "string option"
  fg_innerMargin :: innerMarginType
  fg_statusLabelProps :: "(string \<rightharpoonup> attr) list"
  fg_helpMessage :: jsx
  fg_errorMessages :: "errorMessagesType option"
  fg_disabled :: bool
  fg_className :: string
  fg_children :: jsx
  fg_rest :: "string \<rightharpoonup> attr"

section \<open>FormGroup: rendering\<close>

text \<open>JavaScript's truthiness, of a node and of the \<^verbatim>\<open>errorMessages\<close> prop.\<close>

fun truthy :: "jsx \<Rightarrow> bool" where
  "truthy Nothing = False"
| "truthy (Text s) = (s \<noteq> [])"
| "truthy _ = True"

fun errorMessagesTruthy :: "errorMessagesType option \<Rightarrow> bool" where
  "errorMessagesTruthy None = False"
| "errorMessagesTruthy (Some (Single s)) = (s \<noteq> [])"
| "errorMessagesTruthy (Some (Many ms)) = True"

text \<open>The value of a falsy \<^verbatim>\<open>errorMessages\<close> as a child of the wrapper.\<close>

fun errorMessagesNode :: "errorMessagesType option \<Rightarrow> jsx" where
  "errorMessagesNode (Some (Single s)) = Text s"
| "errorMessagesNode _ = Nothing"

text \<open>\<^verbatim>\<open>typeof errorMessages === 'string' ? [errorMessages] : errorMessages\<close>\<close>

fun errorMessagesList :: "errorMessagesType \<Rightarrow> string list" where
  "errorMessagesList (Single s) = [s]"
| "errorMessagesList (Many ms) = ms"

definition renderErrorMessage :: "Theme \<Rightarrow> bool \<Rightarrow> nat \<times> string \<Rightarrow> jsx" where
  "renderErrorMessage theme dis im =
     Element ''ErrorMessage'' (Some (fst im)) [''themes'' \<mapsto> ThemeVal theme]
       [Element ''ErrorIcon'' None
          [''color'' \<mapsto> Str (if dis then TEXT_DISABLED theme else DANGER theme),
           ''themes'' \<mapsto> ThemeVal theme] [],
        Element ''span'' None Map.empty [Text (snd im)]]"

definition renderErrorMessages :: "Theme \<Rightarrow> bool \<Rightarrow> errorMessagesType option \<Rightarrow> jsx" where
  "renderErrorMessages theme dis em =
     (case em of
        None \<Rightarrow> Nothing
      | Some e \<Rightarrow>
          if errorMessagesTruthy em
          then Fragment (map (renderErrorMessage theme dis) (enumerate 0 (errorMessagesList e)))
          else errorMessagesNode em)"

text \<open>
  The component (lines 25 to 85). The hooks \<^verbatim>\<open>useId\<close> and \<^verbatim>\<open>useTheme\<close> live in
  other modules: \<open>useId\<close> is a parameter, and \<open>theme\<close> is what \<^verbatim>\<open>useTheme()\<close>
  returned.
\<close>

definition FormGroup :: "(string option \<Rightarrow> string) \<Rightarrow> Theme \<Rightarrow> FormGroupProps \<Rightarrow> jsx" where
  "FormGroup useId theme props =
     (let disabledClass = (if fg_disabled props then ''disabled'' else []);
          managedLabelId = useId (fg_labelId props);
          isRoleGroup = (fg_rest props ''role'' = Some (Str ''group''))
      in Element ''Wrapper'' None
           ((fg_rest props)
              (''className'' \<mapsto> Str (fg_className props @ '' '' @ disabledClass),
               ''themes'' \<mapsto> ThemeVal theme,
               ''aria-labelledby'' := (if isRoleGroup then Some (Str managedLabelId) else None)))
           [Element ''TitleWrapper'' None Map.empty
              [Element ''label'' None
                 (Map.empty(''htmlFor'' := map_option Str (fg_htmlFor props),
                            ''id'' \<mapsto> Str managedLabelId))
                 [Element ''Title'' None
                    (Map.empty(''tag'' \<mapsto> Str ''span'',
                               ''type'' := map_option Str (fg_titleType props),
                               ''themes'' \<mapsto> ThemeVal theme,
                               ''className'' \<mapsto> Str disabledClass))
                    [Text (fg_title props)]],
               (if length (fg_statusLabelProps props) > 0
                then Element ''StatusLabels'' None [''themes'' \<mapsto> ThemeVal theme]
                       (map (\<lambda>(index, statusLabelProp).
                               Element ''StyledStatusLabel'' (Some index)
                                 (statusLabelProp(''themes'' \<mapsto> ThemeVal theme)) [])
                          (enumerate 0 (fg_statusLabelProps props)))
                else Nothing)],
            (if truthy (fg_helpMessage props)
             then Element ''HelpMessage'' None [''themes'' \<mapsto> ThemeVal theme]
                    [fg_helpMessage props]
             else fg_helpMessage props),
            renderErrorMessages theme (fg_disabled props) (fg_errorMessages props),
            Element ''Body'' None
              [''themes'' \<mapsto> ThemeVal theme, ''margin'' \<mapsto> MarginVal (fg_innerMargin props)]
              [fg_children props]])"

section \<open>Example inputs\<close>

definition exampleProps :: "nat Props" where
  "exampleProps =
     \<lparr>items = [\<lparr>label = ''Apple'', value = Val 1, deletable = None\<rparr>,
               \<lparr>label = ''Banana'', value = Val 2, deletable = None\<rparr>,
               \<lparr>label = ''Grape'', value = Val 3, deletable = None\<rparr>],
      selectedItems = [\<lparr>label = ''Banana'', value = Val 2, deletable = Some True\<rparr>],
      selectedItemsRef = 0,
      disabled = False, creatable = True, controlledInputValue = None,
      onChange = False, onChangeInput = False, onAdd = True, onDelete = True,
      onSelect = True, onChangeSelected = True, onFocus = True, onBlur = True\<rparr>"

text \<open>Three selected items, and a selection that holds the same label and value twice.\<close>

definition selectionProps :: "nat Props" where
  "selectionProps =
     exampleProps
       \<lparr>selectedItems := [\<lparr>label = ''Apple'', value = Val 1, deletable = None\<rparr>,
                          \<lparr>label = ''Banana'', value = Val 2, deletable = None\<rparr>,
                          \<lparr>label = ''Grape'', value = Val 3, deletable = None\<rparr>]\<rparr>"


text \<open>A selection whose second item has the value NaN.\<close>

definition nanProps :: "nat Props" where
  "nanProps =
     exampleProps
       \<lparr>selectedItems := [\<lparr>label = ''Apple'', value = Val 1, deletable = None\<rparr>,
                          \<lparr>label = ''Missing'', value = NaN, deletable = None\<rparr>]\<rparr>"

text \<open>
  The owner pushed an item onto the selection array of \<open>exampleProps\<close> and rendered again:
  other contents, the same array.
\<close>

definition mutatedProps :: "nat Props" where
  "mutatedProps =
     exampleProps
       \<lparr>selectedItems := [\<lparr>label = ''Banana'', value = Val 2, deletable = Some True\<rparr>,
                          \<lparr>label = ''Grape'', value = Val 3, deletable = None\<rparr>]\<rparr>"

definition controlledProps :: "nat Props" where
  "controlledProps = exampleProps\<lparr>controlledInputValue := Some ''gr''\<rparr>"

text \<open>A focused component with text in its input, outside and inside an IME composition.\<close>

definition typingState :: "string \<Rightarrow> State" where
  "typingState s =
     \<lparr>isFocused = True, uncontrolledInputValue = s, isComposing = False, pendingFocus = 0\<rparr>"

definition composingState :: "string \<Rightarrow> State" where
  "composingState s =
     \<lparr>isFocused = True, uncontrolledInputValue = s, isComposing = True, pendingFocus = 0\<rparr>"

definition exampleTheme :: Theme where
  "exampleTheme = \<lparr>TEXT_DISABLED = ''#c1bdb7'', DANGER = ''#e01e5a''\<rparr>"

definition exampleUseId :: "string option \<Rightarrow> string" where
  "exampleUseId labelId = (case labelId of Some i \<Rightarrow> i | None \<Rightarrow> ''id-1'')"

definition exampleFormGroupProps :: FormGroupProps where
  "exampleFormGroupProps =
     \<lparr>fg_title = ''Name'', fg_titleType = None, fg_htmlFor = Some ''name-input'',
      fg_labelId = None, fg_innerMargin = XS, fg_statusLabelProps = [],
      fg_helpMessage = Nothing, fg_errorMessages = None, fg_disabled = False,
      fg_className = [], fg_children = Text ''body'', fg_rest = [''role'' \<mapsto> Str ''group'']\<rparr>"

section \<open>Filtering\<close>

text \<open>
  Claim C1. Whatever the items, the selection and the input text are, no item of the
  filtered candidate list has the label of a selected item.
\<close>

theorem filteredItems_excludes_selected:
  "\<forall>item \<in> set (filteredItems cms props st).
     \<forall>selected \<in> set (selectedItems props). label item \<noteq> label selected"
  by (auto simp: filteredItems_def selectedLabels_def)

theorem filteredItems_excludes_selected_witness:
  "map label (filteredItems id exampleProps (typingState ''a'')) = [''Grape'']
   \<and> map label (selectedItems exampleProps) = [''Banana'']
   \<and> ''Banana'' \<notin> set (map label (filteredItems id exampleProps (typingState ''a'')))"
  using filteredItems_excludes_selected [of id exampleProps "typingState ''a''"]
  by code_simp

text \<open>
  Claim C2. An item is a candidate exactly when it is one of the items, its label is not
  the label of a selected item and, if the input text is not empty, the normalized input
  text occurs in its normalized label as a contiguous substring. With an empty input text
  the last condition is void.
\<close>

theorem filteredItems_iff:
  "item \<in> set (filteredItems cms props st) \<longleftrightarrow>
     item \<in> set (items props)
     \<and> label item \<notin> label ` set (selectedItems props)
     \<and> (inputValue props st \<noteq> [] \<longrightarrow>
          (\<exists>ps ss. cms (label item) = ps @ cms (inputValue props st) @ ss))"
  by (auto simp: filteredItems_def selectedLabels_def sublist_def)

theorem filteredItems_iff_witness:
  "\<lparr>label = ''Grape'', value = Val 3, deletable = None\<rparr>
     \<in> set (filteredItems id exampleProps (typingState ''ap''))
   \<and> ''Grape'' = ''Gr'' @ id ''ap'' @ ''e''
   \<and> inputValue exampleProps (typingState ''ap'') = ''ap''
   \<and> \<lparr>label = ''Apple'', value = Val 1, deletable = None\<rparr>
     \<in> set (filteredItems id exampleProps (typingState []))
   \<and> inputValue exampleProps (typingState []) = []"
proof -
  let ?grape = "\<lparr>label = ''Grape'', value = Val (3::nat), deletable = None\<rparr>"
  let ?apple = "\<lparr>label = ''Apple'', value = Val (1::nat), deletable = None\<rparr>"
  have a: "?grape \<in> set (items exampleProps)"
    and b: "label ?grape \<notin> label ` set (selectedItems exampleProps)"
    and c: "inputValue exampleProps (typingState ''ap'') = ''ap''"
    and d: "''Grape'' = ''Gr'' @ id ''ap'' @ ''e''"
    and e: "?apple \<in> set (items exampleProps)"
    and f: "label ?apple \<notin> label ` set (selectedItems exampleProps)"
    and g: "inputValue exampleProps (typingState []) = []"
    by (simp_all add: exampleProps_def typingState_def inputValue_def)
  have "id (label ?grape) = ''Gr'' @ id (inputValue exampleProps (typingState ''ap'')) @ ''e''"
    using c by simp
  then have h: "\<exists>ps ss. id (label ?grape)
                  = ps @ id (inputValue exampleProps (typingState ''ap'')) @ ss"
    by blast
  have "?grape \<in> set (filteredItems id exampleProps (typingState ''ap''))"
    unfolding filteredItems_iff [of ?grape id exampleProps "typingState ''ap''"]
    using a b h by blast
  moreover have "?apple \<in> set (filteredItems id exampleProps (typingState []))"
    unfolding filteredItems_iff [of ?apple id exampleProps "typingState []"]
    using e f g by blast
  ultimately show ?thesis using c d g by blast
qed

text \<open>
  Claim C7. The list box is told that the input text can be added as a new item exactly
  when \<^verbatim>\<open>creatable\<close> is set, the input text is not empty and no item has the input text
  as its label; it is told of a duplicate only when some item has the input text as its
  label.
\<close>

theorem listBox_flags:
  "(lb_isAddable (useListBoxOptions cms props st) \<longleftrightarrow>
      creatable props \<and> inputValue props st \<noteq> []
      \<and> (\<forall>item \<in> set (items props). label item \<noteq> inputValue props st))
   \<and> (lb_isDuplicate (useListBoxOptions cms props st) \<longrightarrow>
        (\<exists>item \<in> set (items props). label item = inputValue props st))"
  by (auto simp: useListBoxOptions_def isDuplicate_def list_ex_iff)

theorem listBox_flags_witness:
  "lb_isAddable (useListBoxOptions id exampleProps (typingState ''Ban''))
   \<and> \<not> lb_isAddable (useListBoxOptions id exampleProps (typingState ''Banana''))
   \<and> lb_isDuplicate (useListBoxOptions id exampleProps (typingState ''Banana''))
   \<and> label (items exampleProps ! 1) = inputValue exampleProps (typingState ''Banana'')"
proof -
  have "creatable exampleProps \<and> inputValue exampleProps (typingState ''Ban'') \<noteq> []
          \<and> (\<forall>item \<in> set (items exampleProps).
                label item \<noteq> inputValue exampleProps (typingState ''Ban''))"
    by (simp add: exampleProps_def typingState_def inputValue_def)
  then have addable: "lb_isAddable (useListBoxOptions id exampleProps (typingState ''Ban''))"
    using listBox_flags [of id exampleProps "typingState ''Ban''"] by blast
  have m: "items exampleProps ! 1 \<in> set (items exampleProps)"
    and l: "label (items exampleProps ! 1) = inputValue exampleProps (typingState ''Banana'')"
    by (simp_all add: exampleProps_def typingState_def inputValue_def)
  then have "\<not> (\<forall>item \<in> set (items exampleProps).
                  label item \<noteq> inputValue exampleProps (typingState ''Banana''))"
    by blast
  then have notAddable:
    "\<not> lb_isAddable (useListBoxOptions id exampleProps (typingState ''Banana''))"
    using listBox_flags [of id exampleProps "typingState ''Banana''"] by blast
  have "lb_isDuplicate (useListBoxOptions id exampleProps (typingState ''Banana''))"
    by code_simp
  with addable notAddable l show ?thesis by blast
qed

section \<open>Selection changes\<close>






text \<open>
  What the handler does for an item whose value is NaN: the filter keeps it, since NaN is
  not strictly equal to itself, and \<^verbatim>\<open>onChangeSelected\<close> gets the whole selection.
\<close>

lemma delete_nan_keeps_selection:
  "step nanProps (typingState []) (SelectedItemDelete 1)
     = (typingState [],
        [OnDelete \<lparr>label = ''Missing'', value = NaN, deletable = None\<rparr>,
         OnChangeSelected (selectedItems nanProps)])"
  by (simp add: nanProps_def exampleProps_def step_def commit_def
      MultiSelectedItem_onDelete_def)



section \<open>Focus, blur and composition\<close>

lemmas handler_defs =
  Container_onClick_def Container_onKeyDown_def MultiSelectedItem_onDelete_def
  Input_onChange_def Input_onFocus_def Input_onKeyDown_def inputKeyDownDispatch_def
  listBox_onSelect_def focus_def blur_def inputLayoutEffect_def

text \<open>
  Every event pays for a call of \<^verbatim>\<open>onBlur\<close> with the focused state, and only a call of
  \<^verbatim>\<open>focus()\<close> (which always resets the active option index) restores it.
\<close>

lemma step_blur_budget:
  "count_list (snd (step props st ev)) OnBlur + focusedBit (fst (step props st ev))
     \<le> count_list (snd (step props st ev)) ResetActiveOptionIndex + focusedBit st"
  by (cases ev) (simp_all add: step_def commit_def handler_defs focusedBit_def Let_def)

lemma run_blur_budget:
  "count_list (snd (run props st evs)) OnBlur + focusedBit (fst (run props st evs))
     \<le> count_list (snd (run props st evs)) ResetActiveOptionIndex + focusedBit st"
proof (induction evs arbitrary: st)
  case Nil
  then show ?case by simp
next
  case (Cons ev evs)
  obtain st1 effs1 where s: "step props st ev = (st1, effs1)" by (cases "step props st ev")
  obtain st2 effs2 where r: "run props st1 evs = (st2, effs2)" by (cases "run props st1 evs")
  from step_blur_budget [of props st ev] s
  have a: "count_list effs1 OnBlur + focusedBit st1
             \<le> count_list effs1 ResetActiveOptionIndex + focusedBit st" by simp
  from Cons.IH [of st1] r
  have b: "count_list effs2 OnBlur + focusedBit st2
             \<le> count_list effs2 ResetActiveOptionIndex + focusedBit st1" by simp
  from a b s r show ?case by simp
qed

lemma escape_on_container_blurs:
  assumes "isFocused st" and "key = ''Escape'' \<or> key = ''Esc''"
  shows "\<not> isFocused (fst (step props st (ContainerKeyDown key)))"
    and "count_list (snd (step props st (ContainerKeyDown key))) (SetIsFocused False) = 1"
    and "count_list (snd (step props st (ContainerKeyDown key))) OnBlur
           = (if onBlur props then 1 else 0)"
  using assms by (auto simp add: step_def commit_def handler_defs)

lemma escape_on_input_blurs:
  assumes "isFocused st" and "key = ''Escape'' \<or> key = ''Esc''" and "isComposing st \<or> \<not> stops"
  shows "\<not> isFocused (fst (step props st (InputKeyDown key stops)))"
    and "count_list (snd (step props st (InputKeyDown key stops))) (SetIsFocused False) = 1"
    and "count_list (snd (step props st (InputKeyDown key stops))) OnBlur
           = (if onBlur props then 1 else 0)"
  using assms by (auto simp add: step_def commit_def handler_defs)

lemma tab_on_input_blurs:
  assumes "isFocused st" and "\<not> isComposing st"
  shows "\<not> isFocused (fst (step props st (InputKeyDown ''Tab'' stops)))"
    and "count_list (snd (step props st (InputKeyDown ''Tab'' stops))) (SetIsFocused False) = 1"
    and "count_list (snd (step props st (InputKeyDown ''Tab'' stops))) OnBlur
           = (if onBlur props then 1 else 0)"
  using assms by (simp_all add: step_def commit_def handler_defs)

lemma blur_when_blurred:
  assumes "\<not> isFocused st"
  shows "blur props st = []" and "commit st (blur props st) = st"
    and "step props st OuterClick = (st, [])"
  using assms by (simp_all add: step_def commit_def handler_defs)

text \<open>
  Claim C5, as stated: whenever the component is focused, a Tab keydown blurs it. It fails
  while an IME composition is in progress: the input's key handler returns before it looks
  at the key, the container's handler only reacts to Escape, and the component stays
  focused with nothing called.
\<close>

theorem tab_while_composing_counterexample:
  "isFocused (composingState ''ka'')
   \<and> step exampleProps (composingState ''ka'') (InputKeyDown ''Tab'' False)
     = (composingState ''ka'', [])"
  by (simp add: composingState_def step_def commit_def handler_defs)

text \<open>
  Claim C5, amended. Let the component be focused. An Escape keydown that reaches the
  container's key handler (on the container, or on the input provided the list-box handler
  was not called or did not stop the propagation), and a Tab keydown on the input outside of
  an IME composition, each leave it blurred by exactly one update of the focus flag and call
  \<^verbatim>\<open>onBlur\<close>, if supplied, exactly once. Calling \<^verbatim>\<open>blur\<close> on a blurred component
  updates nothing and calls nothing. Over any sequence of events \<^verbatim>\<open>onBlur\<close> is called at
  most once more often than \<^verbatim>\<open>focus()\<close> when the component starts focused, and at most
  as often when it starts blurred: at most once per focus session.
\<close>

theorem blur_exactly_once:
  "(isFocused st \<and> (key = ''Escape'' \<or> key = ''Esc'') \<longrightarrow>
      \<not> isFocused (fst (step props st (ContainerKeyDown key)))
      \<and> count_list (snd (step props st (ContainerKeyDown key))) (SetIsFocused False) = 1
      \<and> count_list (snd (step props st (ContainerKeyDown key))) OnBlur
          = (if onBlur props then 1 else 0))
   \<and> (isFocused st \<and> (key = ''Escape'' \<or> key = ''Esc'') \<and> (isComposing st \<or> \<not> stops) \<longrightarrow>
      \<not> isFocused (fst (step props st (InputKeyDown key stops)))
      \<and> count_list (snd (step props st (InputKeyDown key stops))) (SetIsFocused False) = 1
      \<and> count_list (snd (step props st (InputKeyDown key stops))) OnBlur
          = (if onBlur props then 1 else 0))
   \<and> (isFocused st \<and> \<not> isComposing st \<longrightarrow>
      \<not> isFocused (fst (step props st (InputKeyDown ''Tab'' stops)))
      \<and> count_list (snd (step props st (InputKeyDown ''Tab'' stops))) (SetIsFocused False) = 1
      \<and> count_list (snd (step props st (InputKeyDown ''Tab'' stops))) OnBlur
          = (if onBlur props then 1 else 0))
   \<and> (\<not> isFocused st \<longrightarrow>
      blur props st = [] \<and> commit st (blur props st) = st
      \<and> step props st OuterClick = (st, []))
   \<and> count_list (snd (run props st evs)) OnBlur
       \<le> count_list (snd (run props st evs)) ResetActiveOptionIndex
          + (if isFocused st then 1 else 0)"
proof (intro conjI impI)
  show "count_list (snd (run props st evs)) OnBlur
          \<le> count_list (snd (run props st evs)) ResetActiveOptionIndex
             + (if isFocused st then 1 else 0)"
    using run_blur_budget [of props st evs] by (simp add: focusedBit_def)
qed (simp_all add: escape_on_container_blurs escape_on_input_blurs tab_on_input_blurs
    blur_when_blurred commit_def)

theorem blur_exactly_once_witness:
  "step exampleProps (typingState ''gr'') (ContainerKeyDown ''Escape'')
     = (initialState,
        [StopPropagation, OnBlur, SetIsFocused False, SetUncontrolledInputValue []])
   \<and> step exampleProps (typingState ''gr'') (InputKeyDown ''Tab'' False)
     = (initialState, [OnBlur, SetIsFocused False, SetUncontrolledInputValue []])
   \<and> step exampleProps initialState OuterClick = (initialState, [])
   \<and> count_list (snd (run exampleProps (typingState ''gr'')
         [InputKeyDown ''Tab'' False, OuterClick, ContainerKeyDown ''Escape''])) OnBlur = 1
   \<and> count_list (snd (run exampleProps initialState
         [ContainerClick False, Timeout, OuterClick, InputKeyDown ''Tab'' False,
          InputFocus, ContainerKeyDown ''Esc'', OuterClick])) OnBlur = 2
   \<and> count_list (snd (run exampleProps initialState
         [ContainerClick False, Timeout, OuterClick, InputKeyDown ''Tab'' False,
          InputFocus, ContainerKeyDown ''Esc'', OuterClick])) ResetActiveOptionIndex = 2"
proof -
  have f: "isFocused (typingState ''gr'')" and c: "\<not> isComposing (typingState ''gr'')"
    and b: "\<not> isFocused initialState"
    by (simp_all add: typingState_def initialState_def)
  note w1 = blur_exactly_once [of "typingState ''gr''" "''Escape''" exampleProps False
      "[InputKeyDown ''Tab'' False, OuterClick, ContainerKeyDown ''Escape'']"]
  note w2 = blur_exactly_once [of initialState "''Escape''" exampleProps False
      "[ContainerClick False, Timeout, OuterClick, InputKeyDown ''Tab'' False,
        InputFocus, ContainerKeyDown ''Esc'', OuterClick]"]
  have s1: "step exampleProps (typingState ''gr'') (ContainerKeyDown ''Escape'')
     = (initialState,
        [StopPropagation, OnBlur, SetIsFocused False, SetUncontrolledInputValue []])"
    and s2: "step exampleProps (typingState ''gr'') (InputKeyDown ''Tab'' False)
     = (initialState, [OnBlur, SetIsFocused False, SetUncontrolledInputValue []])"
    by (simp_all add: exampleProps_def typingState_def initialState_def step_def commit_def
        handler_defs isInputControlled_def)
  have s3: "step exampleProps initialState OuterClick = (initialState, [])"
    using w2 b by blast
  have r1: "count_list (snd (run exampleProps (typingState ''gr'')
         [InputKeyDown ''Tab'' False, OuterClick, ContainerKeyDown ''Escape''])) OnBlur = 1"
    by code_simp
  have r2: "count_list (snd (run exampleProps initialState
         [ContainerClick False, Timeout, OuterClick, InputKeyDown ''Tab'' False,
          InputFocus, ContainerKeyDown ''Esc'', OuterClick])) OnBlur = 2"
    by code_simp
  have r3: "count_list (snd (run exampleProps initialState
         [ContainerClick False, Timeout, OuterClick, InputKeyDown ''Tab'' False,
          InputFocus, ContainerKeyDown ''Esc'', OuterClick])) ResetActiveOptionIndex = 2"
    by code_simp
  from w1 f c s1 s2 s3 r1 r2 r3 show ?thesis by blast
qed

text \<open>
  Claim C8, as stated: during an IME composition every keydown on the input is ignored and
  causes no state transition. It fails for Escape: the input's handler returns without
  stopping the propagation, the event reaches the container's key handler, and that
  handler blurs the component.
\<close>

theorem escape_while_composing_counterexample:
  "isComposing (composingState ''ka'') \<and> isFocused (composingState ''ka'')
   \<and> step exampleProps (composingState ''ka'') (InputKeyDown ''Escape'' False)
     = (\<lparr>isFocused = False, uncontrolledInputValue = [], isComposing = True,
         pendingFocus = 0\<rparr>,
        [StopPropagation, OnBlur, SetIsFocused False, SetUncontrolledInputValue []])"
  by (simp add: exampleProps_def composingState_def step_def commit_def handler_defs
      isInputControlled_def)

text \<open>
  Claim C8, amended. During an IME composition the input's own key handler does nothing for
  any key, and the list-box key handler is not called. A keydown on the input of any key
  but Escape changes no state and calls nothing; in particular Tab leaves the component
  focused. An Escape keydown still bubbles to the container, whose handler stops the
  propagation and calls \<^verbatim>\<open>blur\<close>.
\<close>

theorem composing_keydown:
  assumes "isComposing st"
  shows "Input_onKeyDown props st key = []
    \<and> HandleInputKeyDown k \<notin> set (snd (step props st (InputKeyDown key stops)))
    \<and> (key \<noteq> ''Escape'' \<and> key \<noteq> ''Esc'' \<longrightarrow>
         step props st (InputKeyDown key stops) = (st, []))
    \<and> step props st (InputKeyDown ''Tab'' stops) = (st, [])
    \<and> (key = ''Escape'' \<or> key = ''Esc'' \<longrightarrow>
         handle props st (InputKeyDown key stops) = StopPropagation # blur props st)"
  using assms by (simp add: step_def commit_def handler_defs)

theorem composing_keydown_witness:
  "isComposing (composingState ''ka'')
   \<and> Input_onKeyDown exampleProps (composingState ''ka'') ''ArrowDown'' = []
   \<and> step exampleProps (composingState ''ka'') (InputKeyDown ''ArrowDown'' True)
     = (composingState ''ka'', [])
   \<and> step exampleProps (composingState ''ka'') (InputKeyDown ''Tab'' False)
     = (composingState ''ka'', [])
   \<and> isFocused (composingState ''ka'')"
proof -
  have c: "isComposing (composingState ''ka'')" and f: "isFocused (composingState ''ka'')"
    by (simp_all add: composingState_def)
  have n: "''ArrowDown'' \<noteq> ''Escape'' \<and> ''ArrowDown'' \<noteq> ''Esc''" by simp
  from composing_keydown [OF c, of exampleProps "''ArrowDown''" "''ArrowDown''" True] n
  have a: "Input_onKeyDown exampleProps (composingState ''ka'') ''ArrowDown'' = []"
    and b: "step exampleProps (composingState ''ka'') (InputKeyDown ''ArrowDown'' True)
              = (composingState ''ka'', [])"
    by blast+
  from composing_keydown [OF c, of exampleProps "''Tab''" "''Tab''" False]
  have t: "step exampleProps (composingState ''ka'') (InputKeyDown ''Tab'' False)
              = (composingState ''ka'', [])"
    by blast
  from c f a b t show ?thesis by blast
qed

section \<open>The input text\<close>

lemma receiveProps_resets:
  assumes "controlledInputValue props' = None"
    and "selectedItemsRef props' \<noteq> selectedItemsRef props"
  shows "uncontrolledInputValue (fst (receiveProps props props' st)) = []"
  using assms
  by (simp add: receiveProps_def commit_def inputLayoutEffect_def isInputControlled_def)

lemma step_controlled:
  assumes "controlledInputValue props = Some v"
  shows "SetUncontrolledInputValue s \<notin> set (snd (step props st ev))"
    and "uncontrolledInputValue (fst (step props st ev)) = uncontrolledInputValue st"
  using assms
  by (cases ev; simp add: step_def commit_def handler_defs isInputControlled_def Let_def)+

lemma receiveProps_same_dependencies:
  assumes "selectedItemsRef props' = selectedItemsRef props"
    and "isInputControlled props' = isInputControlled props"
  shows "receiveProps props props' st = (st, [])"
  using assms by (simp add: receiveProps_def commit_def)

text \<open>
  Claim C6, as stated: with an uncontrolled input, the internal text is reset whenever the
  selection list changes. It fails when the list changes within the same array: the
  dependencies of the layout effect are compared by identity, the effect does not run, and
  the text stays.
\<close>

theorem same_array_counterexample:
  "controlledInputValue mutatedProps = None
   \<and> selectedItems mutatedProps \<noteq> selectedItems exampleProps
   \<and> selectedItemsRef mutatedProps = selectedItemsRef exampleProps
   \<and> receiveProps exampleProps mutatedProps (typingState ''ban'') = (typingState ''ban'', [])
   \<and> inputValue mutatedProps (typingState ''ban'') = ''ban''"
  by (simp add: mutatedProps_def exampleProps_def receiveProps_def commit_def
      isInputControlled_def inputValue_def typingState_def)

text \<open>
  Claim C6, amended. Uncontrolled input: when the owner passes another selection array, the
  internal input text is the empty string after the render pass, and so is the displayed
  text; when the owner passes the same array and the input stays controlled or stays
  uncontrolled, the render pass changes nothing. Controlled input: the displayed text is
  the prop, before and after every event and sequence of events, and no event makes the
  component write its internal text.
\<close>

theorem input_value_control:
  "(controlledInputValue props' = None \<and> selectedItemsRef props' \<noteq> selectedItemsRef props \<longrightarrow>
      uncontrolledInputValue (fst (receiveProps props props' st)) = []
      \<and> inputValue props' (fst (receiveProps props props' st)) = [])
   \<and> (selectedItemsRef props' = selectedItemsRef props
        \<and> isInputControlled props' = isInputControlled props \<longrightarrow>
      receiveProps props props' st = (st, []))
   \<and> (controlledInputValue props = Some v \<longrightarrow>
        inputValue props st = v
        \<and> inputValue props (fst (step props st ev)) = v
        \<and> inputValue props (fst (run props st evs)) = v
        \<and> SetUncontrolledInputValue s \<notin> set (snd (step props st ev))
        \<and> uncontrolledInputValue (fst (step props st ev)) = uncontrolledInputValue st)"
proof (intro conjI impI)
  assume a: "controlledInputValue props' = None
    \<and> selectedItemsRef props' \<noteq> selectedItemsRef props"
  then show "uncontrolledInputValue (fst (receiveProps props props' st)) = []"
    by (simp add: receiveProps_resets)
  with a show "inputValue props' (fst (receiveProps props props' st)) = []"
    by (simp add: inputValue_def)
next
  assume "selectedItemsRef props' = selectedItemsRef props
        \<and> isInputControlled props' = isInputControlled props"
  then show "receiveProps props props' st = (st, [])"
    by (simp add: receiveProps_same_dependencies)
next
  assume c: "controlledInputValue props = Some v"
  then show "inputValue props st = v" "inputValue props (fst (step props st ev)) = v"
    "inputValue props (fst (run props st evs)) = v"
    by (simp_all add: inputValue_def)
  from c show "SetUncontrolledInputValue s \<notin> set (snd (step props st ev))"
    by (rule step_controlled)
  from c show "uncontrolledInputValue (fst (step props st ev)) = uncontrolledInputValue st"
    by (rule step_controlled)
qed

theorem input_value_control_witness:
  "controlledInputValue selectionProps = None
   \<and> selectedItemsRef (selectionProps\<lparr>selectedItemsRef := 1\<rparr>) \<noteq> selectedItemsRef exampleProps
   \<and> inputValue exampleProps (typingState ''ban'') = ''ban''
   \<and> inputValue (selectionProps\<lparr>selectedItemsRef := 1\<rparr>)
       (fst (receiveProps exampleProps (selectionProps\<lparr>selectedItemsRef := 1\<rparr>)
               (typingState ''ban''))) = []
   \<and> receiveProps exampleProps exampleProps (typingState ''ban'') = (typingState ''ban'', [])
   \<and> controlledInputValue controlledProps = Some ''gr''
   \<and> inputValue controlledProps (fst (step controlledProps (typingState []) (InputChange ''gra'')))
       = ''gr''
   \<and> snd (step controlledProps (typingState []) (InputChange ''gra'')) = []"
proof -
  let ?new = "selectionProps\<lparr>selectedItemsRef := 1\<rparr>"
  have u: "controlledInputValue ?new = None" "controlledInputValue selectionProps = None"
    and r: "selectedItemsRef ?new \<noteq> selectedItemsRef exampleProps"
    and b: "inputValue exampleProps (typingState ''ban'') = ''ban''"
    and c: "controlledInputValue controlledProps = Some ''gr''"
    and e: "snd (step controlledProps (typingState []) (InputChange ''gra'')) = []"
    by (simp_all add: selectionProps_def exampleProps_def controlledProps_def typingState_def
        inputValue_def step_def commit_def handler_defs isInputControlled_def)
  from input_value_control
      [where props' = ?new and props = exampleProps and st = "typingState ''ban''"] u r
  have x: "inputValue ?new (fst (receiveProps exampleProps ?new (typingState ''ban''))) = []"
    by blast
  from input_value_control
      [where props' = exampleProps and props = exampleProps and st = "typingState ''ban''"]
  have z: "receiveProps exampleProps exampleProps (typingState ''ban'')
             = (typingState ''ban'', [])"
    by blast
  from input_value_control
      [where props = controlledProps and v = "''gr''" and st = "typingState []"
         and ev = "InputChange ''gra''"] c
  have y: "inputValue controlledProps
             (fst (step controlledProps (typingState []) (InputChange ''gra''))) = ''gr''"
    by blast
  from u r b c e x y z show ?thesis by blast
qed

section \<open>FormGroup\<close>

text \<open>
  Claim C9. The wrapper carries \<^verbatim>\<open>aria-labelledby\<close>, with the managed label id as its
  value, exactly when the caller passed the role \<^verbatim>\<open>group\<close>; with any other role, or
  none, the attribute is absent. The label element, the first child of the title wrapper,
  carries the managed id in every case.
\<close>

theorem FormGroup_labelledby:
  "\<exists>wrapperAttrs labelAttrs labelChildren titleSiblings wrapperSiblings.
     FormGroup useId theme props =
       Element ''Wrapper'' None wrapperAttrs
         (Element ''TitleWrapper'' None Map.empty
            (Element ''label'' None labelAttrs labelChildren # titleSiblings) # wrapperSiblings)
     \<and> wrapperAttrs ''aria-labelledby'' =
         (if fg_rest props ''role'' = Some (Str ''group'')
          then Some (Str (useId (fg_labelId props))) else None)
     \<and> labelAttrs ''id'' = Some (Str (useId (fg_labelId props)))"
  by (simp add: FormGroup_def Let_def)

theorem FormGroup_labelledby_witness:
  "attrs (FormGroup exampleUseId exampleTheme exampleFormGroupProps) ''aria-labelledby''
     = Some (Str ''id-1'')
   \<and> attrs (FormGroup exampleUseId exampleTheme
              (exampleFormGroupProps\<lparr>fg_rest := [''role'' \<mapsto> Str ''radiogroup'']\<rparr>))
        ''aria-labelledby'' = None
   \<and> attrs (FormGroup exampleUseId exampleTheme (exampleFormGroupProps\<lparr>fg_rest := Map.empty\<rparr>))
        ''aria-labelledby'' = None
   \<and> attrs (hd (children (hd (children (FormGroup exampleUseId exampleTheme
              (exampleFormGroupProps\<lparr>fg_rest := Map.empty\<rparr>)))))) ''id''
     = Some (Str ''id-1'')"
  using FormGroup_labelledby [of exampleUseId exampleTheme exampleFormGroupProps]
    FormGroup_labelledby [of exampleUseId exampleTheme
      "exampleFormGroupProps\<lparr>fg_rest := [''role'' \<mapsto> Str ''radiogroup'']\<rparr>"]
    FormGroup_labelledby [of exampleUseId exampleTheme
      "exampleFormGroupProps\<lparr>fg_rest := Map.empty\<rparr>"]
  by (auto simp: exampleFormGroupProps_def exampleUseId_def)

text \<open>
  Claim C10, as stated: for every string, the single string and the one-element array
  render the same. It fails for the empty string: as a single string it is falsy, so the
  guard \<^verbatim>\<open>errorMessages &&\<close> leaves the empty string itself as the child, which renders
  nothing, while the one-element array is truthy and renders one error message with its
  icon.
\<close>

theorem FormGroup_empty_error_counterexample:
  "FormGroup exampleUseId exampleTheme (exampleFormGroupProps\<lparr>fg_errorMessages := Some (Single [])\<rparr>)
     \<noteq> FormGroup exampleUseId exampleTheme
         (exampleFormGroupProps\<lparr>fg_errorMessages := Some (Many [[]])\<rparr>)
   \<and> children (FormGroup exampleUseId exampleTheme
        (exampleFormGroupProps\<lparr>fg_errorMessages := Some (Single [])\<rparr>)) ! 2 = Text []
   \<and> children (FormGroup exampleUseId exampleTheme
        (exampleFormGroupProps\<lparr>fg_errorMessages := Some (Many [[]])\<rparr>)) ! 2
     = Fragment [renderErrorMessage exampleTheme False (0, [])]"
  by (simp add: FormGroup_def Let_def renderErrorMessages_def enumerate_eq_zip
      exampleFormGroupProps_def)

text \<open>
  Claim C10, amended. For every string that is not empty, \<^verbatim>\<open>FormGroup\<close> renders the
  same with the single string as with the one-element array of it: the single string is
  made a one-element list before the error messages are rendered.
\<close>

theorem FormGroup_single_error:
  "s \<noteq> [] \<Longrightarrow>
   FormGroup useId theme (props\<lparr>fg_errorMessages := Some (Single s)\<rparr>)
     = FormGroup useId theme (props\<lparr>fg_errorMessages := Some (Many [s])\<rparr>)"
  by (simp add: FormGroup_def Let_def renderErrorMessages_def)

theorem FormGroup_single_error_witness:
  "FormGroup exampleUseId exampleTheme
     (exampleFormGroupProps\<lparr>fg_errorMessages := Some (Single ''required'')\<rparr>)
     = FormGroup exampleUseId exampleTheme
         (exampleFormGroupProps\<lparr>fg_errorMessages := Some (Many [''required''])\<rparr>)
   \<and> children (FormGroup exampleUseId exampleTheme
        (exampleFormGroupProps\<lparr>fg_errorMessages := Some (Single ''required'')\<rparr>)) ! 2
     = Fragment [renderErrorMessage exampleTheme False (0, ''required'')]"
proof -
  have n: "''required'' \<noteq> []" by simp
  have "children (FormGroup exampleUseId exampleTheme
        (exampleFormGroupProps\<lparr>fg_errorMessages := Some (Single ''required'')\<rparr>)) ! 2
     = Fragment [renderErrorMessage exampleTheme False (0, ''required'')]"
    by (simp add: FormGroup_def Let_def renderErrorMessages_def enumerate_eq_zip
        exampleFormGroupProps_def)
  with FormGroup_single_error [OF n, of exampleUseId exampleTheme exampleFormGroupProps]
  show ?thesis by blast
qed

end
